theory Spec2Isabelle
  imports Main
begin

section \<open>Twitter user blocks: block, unblock, list blocked users\<close>

text \<open>
  A shallow embedding of \<^verbatim>\<open>backend/blocks/twitter/users/blocks.py\<close>. The three block
  classes wrap one call each to the vendor SDK (tweepy). The vendor, the expansions
  builder, the includes serializer and the exception formatter live outside that file and
  are parameters of the model, collected in a \<open>platform\<close> record. Every vendor call is
  written to a call log that is threaded through the functions, so that the number of
  vendor calls an operation makes can be read off the log.
\<close>

subsection \<open>Python values\<close>

text \<open>The JSON-like values that the vendor's dictionaries hold.\<close>

datatype pyval =
    PNone
  | PBool bool
  | PInt int
  | PStr string
  | PList "pyval list"
  | PDict "(string \<times> pyval) list"

text \<open>A \<^verbatim>\<open>dict\<close> with string keys, in insertion order; \<open>map_of\<close> looks a key up.\<close>

type_synonym dict = "(string \<times> pyval) list"

text \<open>Python's truth value of an object, as the \<^verbatim>\<open>if x:\<close> tests of the source use it.\<close>

fun truthy :: "pyval \<Rightarrow> bool" where
  "truthy PNone = False"
| "truthy (PBool b) = b"
| "truthy (PInt n) = (n \<noteq> 0)"
| "truthy (PStr s) = (s \<noteq> [])"
| "truthy (PList xs) = (xs \<noteq> [])"
| "truthy (PDict d) = (d \<noteq> [])"

text \<open>\<^verbatim>\<open>str(n)\<close> of a Python int: its decimal digits, with a minus sign when negative.\<close>

fun str_nat :: "nat \<Rightarrow> string" where
  "str_nat n =
     (if n < 10 then [''0123456789'' ! n]
      else str_nat (n div 10) @ [''0123456789'' ! (n mod 10)])"

declare str_nat.simps [simp del]

definition str :: "int \<Rightarrow> string" where
  "str i = (if i < 0 then CHR ''-'' # str_nat (nat (- i)) else str_nat (nat i))"

subsection \<open>Exceptions\<close>

text \<open>
  The instances of \<^verbatim>\<open>Exception\<close> that the code can meet: tweepy's hierarchy under
  \<^verbatim>\<open>TweepyException\<close> (with the message), and any other Python exception (class name and
  message). These are the exceptions that \<^verbatim>\<open>except Exception\<close> catches.
\<close>

datatype tweepy_class =
    TweepyBase
  | HTTPException
  | BadRequest
  | Unauthorized
  | Forbidden
  | NotFound
  | TooManyRequests
  | TwitterServerError

datatype exn =
    TweepyException tweepy_class string
  | PyException string string

text \<open>\<^verbatim>\<open>isinstance(e, tweepy.TweepyException)\<close>, the test of \<^verbatim>\<open>except tweepy.TweepyException\<close>.\<close>

fun is_TweepyException :: "exn \<Rightarrow> bool" where
  "is_TweepyException (TweepyException _ _) = True"
| "is_TweepyException (PyException _ _) = False"

subsection \<open>Vendor data\<close>

record credentials =
  access_token :: string

datatype client = Client (bearer_token: string)

text \<open>A \<^verbatim>\<open>tweepy.User\<close>: the two attributes the code reads.\<close>

record user =
  id' :: int
  username :: string

text \<open>
  A \<^verbatim>\<open>tweepy.Response\<close>: \<open>data\<close> is \<^verbatim>\<open>None\<close> or a list of users, \<open>includes\<close> and \<open>meta\<close>
  are dictionaries (the field \<open>includes\<close> is written \<open>includes'\<close>).
\<close>

record response =
  data :: "user list option"
  includes' :: dict
  meta :: dict

text \<open>The vendor calls the code makes, with their arguments.\<close>

datatype call =
    Unblock client string bool
  | Block client string bool
  | Get_blocked client dict

text \<open>
  The collaborators outside the file. The vendor answers a call with a response or raises;
  its answer may depend on the calls made before. The builder and the serializer may
  raise as well. \<open>handle_tweepy_exception\<close> formats an exception as a string.
\<close>

record ('x, 't, 'u) platform =
  vendor :: "call list \<Rightarrow> call \<Rightarrow> exn + response"
  UserExpansionsBuilder :: "dict \<Rightarrow> 'x \<Rightarrow> 't \<Rightarrow> 'u \<Rightarrow> exn + dict"
  IncludesSerializer_serialize :: "dict \<Rightarrow> exn + dict"
  handle_tweepy_exception :: "exn \<Rightarrow> string"

text \<open>One call of a method of \<^verbatim>\<open>tweepy.Client\<close>: the vendor answers and the call is logged.\<close>

definition client_call ::
  "('x, 't, 'u) platform \<Rightarrow> call \<Rightarrow> call list \<Rightarrow> (exn + response) \<times> call list" where
  "client_call P c log = (vendor P log c, log @ [c])"

subsection \<open>Block outputs\<close>

text \<open>The values a block yields; a run of a block is the list of its (name, value) pairs.\<close>

datatype out_val =
    VBool bool
  | VStr string
  | VStrList "string list"
  | VDict dict
  | VPy pyval

type_synonym block_output = "(string \<times> out_val) list"

subsection \<open>TwitterUnblockUserBlock\<close>

record unblock_input =
  target_user_id :: string

text \<open>
  Building the \<^verbatim>\<open>tweepy.Client\<close> from the secret's value only stores the token; the one
  step that can raise is the vendor call. \<^verbatim>\<open>except tweepy.TweepyException: raise\<close>
  re-raises the exception it caught; any other exception is not caught and propagates.
\<close>

definition unblock_user ::
  "('x, 't, 'u) platform \<Rightarrow> credentials \<Rightarrow> string \<Rightarrow> call list
     \<Rightarrow> (exn + bool) \<times> call list" where
  "unblock_user P creds target log =
     (let client = Client (access_token creds) in
      case client_call P (Unblock client target False) log of
        (Inr _, log') \<Rightarrow> (Inr True, log')
      | (Inl e, log') \<Rightarrow>
          (if is_TweepyException e then (Inl e, log') else (Inl e, log')))"

definition TwitterUnblockUserBlock_run ::
  "('x, 't, 'u) platform \<Rightarrow> unblock_input \<Rightarrow> credentials \<Rightarrow> call list
     \<Rightarrow> block_output \<times> call list" where
  "TwitterUnblockUserBlock_run P input_data creds log =
     (case unblock_user P creds (unblock_input.target_user_id input_data) log of
        (Inr success, log') \<Rightarrow> ([(''success'', VBool success)], log')
      | (Inl e, log') \<Rightarrow> ([(''error'', VStr (handle_tweepy_exception P e))], log'))"

subsection \<open>TwitterGetBlockedUsersBlock\<close>

record ('x, 't, 'u) get_blocked_input =
  max_results :: "int option"
  pagination_token :: "string option"
  expansions :: 'x
  tweet_fields :: 't
  user_fields :: 'u

text \<open>
  The dictionary literal that starts the request parameters; an empty pagination token
  is replaced by \<^verbatim>\<open>None\<close>.
\<close>

definition request_params :: "int option \<Rightarrow> string option \<Rightarrow> dict" where
  "request_params max_res token =
     [(''max_results'', (case max_res of None \<Rightarrow> PNone | Some n \<Rightarrow> PInt n)),
      (''pagination_token'',
         (case (if token = Some [] then None else token) of
            None \<Rightarrow> PNone
          | Some s \<Rightarrow> PStr s)),
      (''user_auth'', PBool False)]"

text \<open>
  The loop over \<^verbatim>\<open>response.data\<close>: each iteration appends the id, as a string, to
  \<^verbatim>\<open>user_ids\<close> and the username to \<^verbatim>\<open>usernames\<close>.
\<close>

fun collect_users ::
  "user list \<Rightarrow> string list \<times> string list \<Rightarrow> string list \<times> string list" where
  "collect_users [] (user_ids, usernames) = (user_ids, usernames)"
| "collect_users (u # us) (user_ids, usernames) =
     collect_users us (user_ids @ [str (id' u)], usernames @ [username u])"

type_synonym blocked_users = "dict \<times> dict \<times> string list \<times> string list \<times> pyval"

text \<open>The body of the \<^verbatim>\<open>try\<close> statement of \<^verbatim>\<open>get_blocked_users\<close>.\<close>

definition get_blocked_users_body ::
  "('x, 't, 'u) platform \<Rightarrow> credentials \<Rightarrow> int option \<Rightarrow> string option
     \<Rightarrow> 'x \<Rightarrow> 't \<Rightarrow> 'u \<Rightarrow> call list \<Rightarrow> (exn + blocked_users) \<times> call list" where
  "get_blocked_users_body P creds max_res token exps tfields ufields log =
     (let client = Client (access_token creds);
          params = request_params max_res token
      in case UserExpansionsBuilder P params exps tfields ufields of
           Inl e \<Rightarrow> (Inl e, log)
         | Inr params' \<Rightarrow>
            (case client_call P (Get_blocked client params') log of
               (Inl e, log') \<Rightarrow> (Inl e, log')
             | (Inr resp, log') \<Rightarrow>
                (case IncludesSerializer_serialize P (includes' resp) of
                   Inl e \<Rightarrow> (Inl e, log')
                 | Inr included \<Rightarrow>
                    (let (user_ids, usernames) =
                           (case data resp of
                              None \<Rightarrow> ([], [])
                            | Some us \<Rightarrow>
                                if us \<noteq> [] then collect_users us ([], []) else ([], []));
                         (meta', next_token) =
                           (if meta resp \<noteq> []
                            then (meta resp,
                                  (case map_of (meta resp) ''next_token'' of
                                     Some v \<Rightarrow> v
                                   | None \<Rightarrow> PNone))
                            else ([], PNone))
                     in if user_ids \<noteq> [] \<and> usernames \<noteq> []
                        then (Inr (included, meta', user_ids, usernames, next_token), log')
                        else (Inl (TweepyException TweepyBase ''No blocked users found''),
                              log')))))"

definition get_blocked_users ::
  "('x, 't, 'u) platform \<Rightarrow> credentials \<Rightarrow> int option \<Rightarrow> string option
     \<Rightarrow> 'x \<Rightarrow> 't \<Rightarrow> 'u \<Rightarrow> call list \<Rightarrow> (exn + blocked_users) \<times> call list" where
  "get_blocked_users P creds max_res token exps tfields ufields log =
     (case get_blocked_users_body P creds max_res token exps tfields ufields log of
        (Inr result, log') \<Rightarrow> (Inr result, log')
      | (Inl e, log') \<Rightarrow>
          (if is_TweepyException e then (Inl e, log') else (Inl e, log')))"

definition TwitterGetBlockedUsersBlock_run ::
  "('x, 't, 'u) platform \<Rightarrow> ('x, 't, 'u) get_blocked_input \<Rightarrow> credentials \<Rightarrow> call list
     \<Rightarrow> block_output \<times> call list" where
  "TwitterGetBlockedUsersBlock_run P input_data creds log =
     (case get_blocked_users P creds (max_results input_data)
             (pagination_token input_data) (expansions input_data)
             (tweet_fields input_data) (user_fields input_data) log of
        (Inr (included, meta', user_ids, usernames, next_token), log') \<Rightarrow>
          ((if user_ids \<noteq> [] then [(''user_ids'', VStrList user_ids)] else []) @
           (if usernames \<noteq> [] then [(''usernames_'', VStrList usernames)] else []) @
           (if included \<noteq> [] then [(''included'', VDict included)] else []) @
           (if meta' \<noteq> [] then [(''meta'', VDict meta')] else []) @
           (if truthy next_token then [(''next_token'', VPy next_token)] else []),
           log')
      | (Inl e, log') \<Rightarrow> ([(''error'', VStr (handle_tweepy_exception P e))], log'))"

subsection \<open>TwitterBlockUserBlock\<close>

record block_input =
  target_user_id :: string

definition block_user ::
  "('x, 't, 'u) platform \<Rightarrow> credentials \<Rightarrow> string \<Rightarrow> call list
     \<Rightarrow> (exn + bool) \<times> call list" where
  "block_user P creds target log =
     (let client = Client (access_token creds) in
      case client_call P (Block client target False) log of
        (Inr _, log') \<Rightarrow> (Inr True, log')
      | (Inl e, log') \<Rightarrow>
          (if is_TweepyException e then (Inl e, log') else (Inl e, log')))"

definition TwitterBlockUserBlock_run ::
  "('x, 't, 'u) platform \<Rightarrow> block_input \<Rightarrow> credentials \<Rightarrow> call list
     \<Rightarrow> block_output \<times> call list" where
  "TwitterBlockUserBlock_run P input_data creds log =
     (case block_user P creds (block_input.target_user_id input_data) log of
        (Inr success, log') \<Rightarrow> ([(''success'', VBool success)], log')
      | (Inl e, log') \<Rightarrow> ([(''error'', VStr (handle_tweepy_exception P e))], log'))"

subsection \<open>Output names\<close>

text \<open>The names of the outputs a run yields, and the names of the success payload.\<close>

definition output_names :: "block_output \<Rightarrow> string set" where
  "output_names outs = set (map fst outs)"

definition payload_names :: "string set" where
  "payload_names =
     {''success'', ''user_ids'', ''usernames_'', ''included'', ''meta'', ''next_token''}"

subsection \<open>A sample platform\<close>

text \<open>
  A concrete vendor to run the blocks on. Blocking or unblocking user \<^verbatim>\<open>0\<close> raises; a
  listing with token \<^verbatim>\<open>bad\<close> raises; the page after token \<^verbatim>\<open>end\<close> holds no users;
  any other listing returns the two users of the blocks' own test data, with a next token.
\<close>

definition sample_vendor :: "call list \<Rightarrow> call \<Rightarrow> exn + response" where
  "sample_vendor log c =
     (case c of
        Unblock _ target _ \<Rightarrow>
          (if target = ''0'' then Inl (TweepyException NotFound ''404 Not Found'')
           else Inr \<lparr>data = None, includes' = [], meta = []\<rparr>)
      | Block _ target _ \<Rightarrow>
          (if target = ''0''
           then Inl (TweepyException TooManyRequests ''429 Too Many Requests'')
           else Inr \<lparr>data = None, includes' = [], meta = []\<rparr>)
      | Get_blocked _ params \<Rightarrow>
          (if map_of params ''pagination_token'' = Some (PStr ''bad'')
           then Inl (TweepyException BadRequest ''400 Bad Request'')
           else if map_of params ''pagination_token'' = Some (PStr ''end'')
           then Inr \<lparr>data = None, includes' = [], meta = [(''result_count'', PInt 0)]\<rparr>
           else Inr \<lparr>data = Some [\<lparr>id' = 12345, username = ''testuser1''\<rparr>,
                                  \<lparr>id' = 67890, username = ''testuser2''\<rparr>],
                     includes' = [],
                     meta = [(''result_count'', PInt 2), (''next_token'', PStr ''abc'')]\<rparr>))"

definition sample_platform :: "(unit, unit, unit) platform" where
  "sample_platform =
     \<lparr>vendor = sample_vendor,
      UserExpansionsBuilder = (\<lambda>params _ _ _. Inr params),
      IncludesSerializer_serialize = (\<lambda>d. Inr d),
      handle_tweepy_exception =
        (\<lambda>e. case e of
                TweepyException _ m \<Rightarrow> ''Twitter API error: '' @ m
              | PyException _ m \<Rightarrow> ''Unexpected error: '' @ m)\<rparr>"

definition sample_credentials :: credentials where
  "sample_credentials = \<lparr>access_token = ''token''\<rparr>"

definition sample_listing :: "(unit, unit, unit) get_blocked_input" where
  "sample_listing =
     \<lparr>max_results = Some 10, pagination_token = Some [],
      expansions = (), tweet_fields = (), user_fields = ()\<rparr>"

section \<open>Properties\<close>

subsection \<open>Auxiliary facts\<close>

text \<open>The loop appends, in order, the rendered ids and the usernames of the users it visits.\<close>


lemma collect_users_eq:
  "collect_users us (ids, names) = (ids @ map (\<lambda>u. str (id' u)) us, names @ map username us)"
  by (induction us arbitrary: ids names) simp_all

lemma unblock_user_eq:
  "unblock_user P creds t log =
     ((case vendor P log (Unblock (Client (access_token creds)) t False) of
         Inl e \<Rightarrow> Inl e | Inr _ \<Rightarrow> Inr True),
      log @ [Unblock (Client (access_token creds)) t False])"
  by (simp add: unblock_user_def client_call_def split: sum.splits)

lemma block_user_eq:
  "block_user P creds t log =
     ((case vendor P log (Block (Client (access_token creds)) t False) of
         Inl e \<Rightarrow> Inl e | Inr _ \<Rightarrow> Inr True),
      log @ [Block (Client (access_token creds)) t False])"
  by (simp add: block_user_def client_call_def split: sum.splits)

lemma get_blocked_users_eq_body:
  "get_blocked_users P creds mr tok x t u log = get_blocked_users_body P creds mr tok x t u log"
  by (simp add: get_blocked_users_def split: prod.splits sum.splits)

lemma unblock_run_cases:
  "fst (unblock_user P creds (unblock_input.target_user_id ui) log) = Inl e \<Longrightarrow>
     fst (TwitterUnblockUserBlock_run P ui creds log) = [(''error'', VStr (handle_tweepy_exception P e))]"
  "fst (unblock_user P creds (unblock_input.target_user_id ui) log) = Inr b \<Longrightarrow>
     fst (TwitterUnblockUserBlock_run P ui creds log) = [(''success'', VBool b)]"
  by (auto simp: TwitterUnblockUserBlock_run_def split: prod.splits sum.splits)

lemma block_run_cases:
  "fst (block_user P creds (block_input.target_user_id bi) log) = Inl e \<Longrightarrow>
     fst (TwitterBlockUserBlock_run P bi creds log) = [(''error'', VStr (handle_tweepy_exception P e))]"
  "fst (block_user P creds (block_input.target_user_id bi) log) = Inr b \<Longrightarrow>
     fst (TwitterBlockUserBlock_run P bi creds log) = [(''success'', VBool b)]"
  by (auto simp: TwitterBlockUserBlock_run_def split: prod.splits sum.splits)

lemma get_blocked_run_error:
  "fst (get_blocked_users P creds (max_results gi) (pagination_token gi) (expansions gi)
          (tweet_fields gi) (user_fields gi) log) = Inl e \<Longrightarrow>
     fst (TwitterGetBlockedUsersBlock_run P gi creds log) = [(''error'', VStr (handle_tweepy_exception P e))]"
  by (auto simp: TwitterGetBlockedUsersBlock_run_def split: prod.splits sum.splits)

lemma get_blocked_run_success:
  "fst (get_blocked_users P creds (max_results gi) (pagination_token gi) (expansions gi)
          (tweet_fields gi) (user_fields gi) log) = Inr (included, m, user_ids, usernames, nt) \<Longrightarrow>
     fst (TwitterGetBlockedUsersBlock_run P gi creds log) =
       (if user_ids \<noteq> [] then [(''user_ids'', VStrList user_ids)] else []) @
       (if usernames \<noteq> [] then [(''usernames_'', VStrList usernames)] else []) @
       (if included \<noteq> [] then [(''included'', VDict included)] else []) @
       (if m \<noteq> [] then [(''meta'', VDict m)] else []) @
       (if truthy nt then [(''next_token'', VPy nt)] else [])"
  by (auto simp: TwitterGetBlockedUsersBlock_run_def split: prod.splits sum.splits)

lemma get_blocked_users_success_shape:
  assumes "fst (get_blocked_users P creds mr tok x t u log) = Inr (included, m, user_ids, usernames, nt)"
  shows "\<exists>params' resp us.
           UserExpansionsBuilder P (request_params mr tok) x t u = Inr params' \<and>
           vendor P log (Get_blocked (Client (access_token creds)) params') = Inr resp \<and>
           IncludesSerializer_serialize P (includes' resp) = Inr included \<and>
           data resp = Some us \<and> us \<noteq> [] \<and>
           user_ids = map (\<lambda>u. str (id' u)) us \<and> usernames = map username us \<and>
           m = meta resp \<and>
           nt = (case map_of (meta resp) ''next_token'' of Some v \<Rightarrow> v | None \<Rightarrow> PNone)"
  using assms
  by (auto simp: get_blocked_users_eq_body get_blocked_users_body_def client_call_def
        collect_users_eq Let_def split: sum.splits option.splits if_splits prod.splits)

lemma get_blocked_users_log:
  "\<exists>cs. snd (get_blocked_users P creds mr tok x t u log) = log @ cs \<and> length cs \<le> 1"
  by (auto simp: get_blocked_users_eq_body get_blocked_users_body_def client_call_def
        Let_def split: sum.splits option.splits if_splits prod.splits)

lemma get_blocked_users_vendor_raises:
  assumes "UserExpansionsBuilder P (request_params mr tok) x t u = Inr params'"
    and "vendor P log (Get_blocked (Client (access_token creds)) params') = Inl e"
  shows "get_blocked_users P creds mr tok x t u log =
           (Inl e, log @ [Get_blocked (Client (access_token creds)) params'])"
  using assms
  by (simp add: get_blocked_users_eq_body get_blocked_users_body_def client_call_def)

lemma get_blocked_users_no_users:
  assumes "UserExpansionsBuilder P (request_params mr tok) x t u = Inr params'"
    and "vendor P log (Get_blocked (Client (access_token creds)) params') = Inr resp"
    and "data resp = None \<or> data resp = Some []"
  shows "get_blocked_users P creds mr tok x t u log =
           (Inl (case IncludesSerializer_serialize P (includes' resp) of
                   Inl e \<Rightarrow> e
                 | Inr _ \<Rightarrow> TweepyException TweepyBase ''No blocked users found''),
            log @ [Get_blocked (Client (access_token creds)) params'])"
  using assms
  by (auto simp: get_blocked_users_eq_body get_blocked_users_body_def client_call_def
        Let_def split: sum.splits)

lemma sample_builder:
  "UserExpansionsBuilder sample_platform p x t u = Inr p"
  by (simp add: sample_platform_def)

lemma sample_vendor_simp: "vendor sample_platform = sample_vendor"
  by (simp add: sample_platform_def)

lemma sample_serializer: "IncludesSerializer_serialize sample_platform d = Inr d"
  by (simp add: sample_platform_def)

lemma sample_handler:
  "handle_tweepy_exception sample_platform (TweepyException k m) = ''Twitter API error: '' @ m"
  by (simp add: sample_platform_def)

lemma sample_token: "access_token sample_credentials = ''token''"
  by (simp add: sample_credentials_def)

subsection \<open>Listing blocked users: no users is an error\<close>

text \<open>
  Claim C1. When the vendor's listing call answers with no users (\<open>data\<close> is \<^verbatim>\<open>None\<close> or
  the empty list, so the collected \<open>user_ids\<close> and \<open>usernames\<close> are empty),
  \<open>get_blocked_users\<close> raises an exception instead of returning an empty payload, and the
  run of the block yields exactly one output, named \<open>error\<close>, and no data output. Unless
  the includes serializer raised first, the exception is
  \<^verbatim>\<open>TweepyException("No blocked users found")\<close>.
\<close>

theorem get_blocked_no_users_is_error:
  assumes "UserExpansionsBuilder P (request_params (max_results gi) (pagination_token gi))
             (expansions gi) (tweet_fields gi) (user_fields gi) = Inr params'"
    and "vendor P log (Get_blocked (Client (access_token creds)) params') = Inr resp"
    and "data resp = None \<or> data resp = Some []"
  shows "\<exists>e. fst (get_blocked_users P creds (max_results gi) (pagination_token gi)
                   (expansions gi) (tweet_fields gi) (user_fields gi) log) = Inl e \<and>
             fst (TwitterGetBlockedUsersBlock_run P gi creds log) =
               [(''error'', VStr (handle_tweepy_exception P e))] \<and>
             (\<forall>inc. IncludesSerializer_serialize P (includes' resp) = Inr inc \<longrightarrow>
                e = TweepyException TweepyBase ''No blocked users found'')"
proof -
  let ?e = "case IncludesSerializer_serialize P (includes' resp) of
              Inl e \<Rightarrow> e
            | Inr _ \<Rightarrow> TweepyException TweepyBase ''No blocked users found''"
  have raised: "fst (get_blocked_users P creds (max_results gi) (pagination_token gi)
                   (expansions gi) (tweet_fields gi) (user_fields gi) log) = Inl ?e"
    using get_blocked_users_no_users [OF assms] by simp
  have "fst (TwitterGetBlockedUsersBlock_run P gi creds log) =
          [(''error'', VStr (handle_tweepy_exception P ?e))]"
    by (rule get_blocked_run_error [OF raised])
  moreover have "\<forall>inc. IncludesSerializer_serialize P (includes' resp) = Inr inc \<longrightarrow>
                   ?e = TweepyException TweepyBase ''No blocked users found''"
    by simp
  ultimately show ?thesis using raised by blast
qed

text \<open>
  On the sample platform the page after token \<^verbatim>\<open>end\<close> holds no users: the run yields the
  single error output.
\<close>

theorem get_blocked_no_users_is_error_witness:
  "fst (TwitterGetBlockedUsersBlock_run sample_platform
          (sample_listing\<lparr>pagination_token := Some ''end''\<rparr>) sample_credentials []) =
     [(''error'', VStr ''Twitter API error: No blocked users found'')]"
proof -
  let ?gi = "sample_listing\<lparr>pagination_token := Some ''end''\<rparr>"
  let ?p = "request_params (Some 10) (Some ''end'')"
  let ?r = "\<lparr>data = None, includes' = [], meta = [(''result_count'', PInt 0)]\<rparr>"
  have b: "UserExpansionsBuilder sample_platform
             (request_params (max_results ?gi) (pagination_token ?gi))
             (expansions ?gi) (tweet_fields ?gi) (user_fields ?gi) = Inr ?p"
    by (simp add: sample_builder sample_listing_def)
  have v: "vendor sample_platform [] (Get_blocked (Client (access_token sample_credentials)) ?p)
             = Inr ?r"
    by (simp add: sample_vendor_simp sample_vendor_def request_params_def)
  have d: "data ?r = None \<or> data ?r = Some []"
    by simp
  from get_blocked_no_users_is_error [OF b v d]
  obtain e where
    run: "fst (TwitterGetBlockedUsersBlock_run sample_platform ?gi sample_credentials []) =
            [(''error'', VStr (handle_tweepy_exception sample_platform e))]"
    and e: "\<forall>inc. IncludesSerializer_serialize sample_platform (includes' ?r) = Inr inc \<longrightarrow>
              e = TweepyException TweepyBase ''No blocked users found''"
    by blast
  from e have "e = TweepyException TweepyBase ''No blocked users found''"
    by (simp add: sample_serializer)
  with run show ?thesis
    by (simp add: sample_handler)
qed

subsection \<open>Listing blocked users: ids and usernames are aligned\<close>

lemma str_samples: "str 12345 = ''12345''" "str 67890 = ''67890''"
  by (simp_all add: str_def str_nat.simps)

lemma sample_listing_result:
  "get_blocked_users sample_platform sample_credentials (Some 10) (Some []) () () () [] =
     (Inr ([], [(''result_count'', PInt 2), (''next_token'', PStr ''abc'')],
           [''12345'', ''67890''], [''testuser1'', ''testuser2''], PStr ''abc''),
      [Get_blocked (Client ''token'') (request_params (Some 10) None)])"
  by (simp add: get_blocked_users_eq_body get_blocked_users_body_def client_call_def
        sample_platform_def sample_vendor_def sample_credentials_def request_params_def
        str_samples)

text \<open>
  Claim C2. Whenever \<open>get_blocked_users\<close> returns a result, its \<open>user_ids\<close> and
  \<open>usernames\<close> have the same length, which is the number of users in the vendor's
  response, and at every position \<open>k\<close> the id is the rendered id of the \<open>k\<close>-th user of
  the response and the username is the username of that same user.
\<close>

theorem get_blocked_ids_usernames_aligned:
  assumes "fst (get_blocked_users P creds mr tok x t u log) =
             Inr (included, m, user_ids, usernames, nt)"
  shows "length user_ids = length usernames \<and>
         (\<exists>params' resp us.
            UserExpansionsBuilder P (request_params mr tok) x t u = Inr params' \<and>
            vendor P log (Get_blocked (Client (access_token creds)) params') = Inr resp \<and>
            data resp = Some us \<and> length us = length user_ids \<and>
            (\<forall>k<length us. user_ids ! k = str (id' (us ! k)) \<and>
                             usernames ! k = username (us ! k)))"
proof -
  from get_blocked_users_success_shape [OF assms]
  obtain params' resp us where
    b: "UserExpansionsBuilder P (request_params mr tok) x t u = Inr params'"
    and v: "vendor P log (Get_blocked (Client (access_token creds)) params') = Inr resp"
    and d: "data resp = Some us"
    and ids: "user_ids = map (\<lambda>u. str (id' u)) us"
    and names: "usernames = map username us"
    by blast
  have len: "length user_ids = length usernames" "length us = length user_ids"
    by (simp_all add: ids names)
  have "\<forall>k<length us. user_ids ! k = str (id' (us ! k)) \<and> usernames ! k = username (us ! k)"
    by (simp add: ids names)
  with b v d len show ?thesis by blast
qed

text \<open>
  On the sample platform the listing returns the two users of the block's test data:
  two ids, two usernames, position by position those of the vendor's users.
\<close>

theorem get_blocked_ids_usernames_aligned_witness:
  "fst (get_blocked_users sample_platform sample_credentials (Some 10) (Some []) () () () []) =
     Inr ([], [(''result_count'', PInt 2), (''next_token'', PStr ''abc'')],
          [''12345'', ''67890''], [''testuser1'', ''testuser2''], PStr ''abc'') \<and>
   length [''12345'', ''67890''] = length [''testuser1'', ''testuser2''] \<and>
   (\<exists>params' resp us.
      UserExpansionsBuilder sample_platform (request_params (Some 10) (Some [])) () () ()
        = Inr params' \<and>
      vendor sample_platform [] (Get_blocked (Client (access_token sample_credentials)) params')
        = Inr resp \<and>
      data resp = Some us \<and> length us = length [''12345'', ''67890''] \<and>
      (\<forall>k<length us. [''12345'', ''67890''] ! k = str (id' (us ! k)) \<and>
                       [''testuser1'', ''testuser2''] ! k = username (us ! k)))"
proof -
  have h: "fst (get_blocked_users sample_platform sample_credentials (Some 10) (Some [])
                  () () () []) =
             Inr ([], [(''result_count'', PInt 2), (''next_token'', PStr ''abc'')],
                  [''12345'', ''67890''], [''testuser1'', ''testuser2''], PStr ''abc'')"
    by (simp add: sample_listing_result)
  from h get_blocked_ids_usernames_aligned [OF h] show ?thesis
    by (rule conjI)
qed

subsection \<open>Exceptions become a single error output\<close>

lemma sample_unblock_raises:
  "unblock_user sample_platform sample_credentials ''0'' [] =
     (Inl (TweepyException NotFound ''404 Not Found''), [Unblock (Client ''token'') ''0'' False])"
  by (simp add: unblock_user_eq sample_vendor_simp sample_vendor_def sample_token)

lemma sample_block_raises:
  "block_user sample_platform sample_credentials ''0'' [] =
     (Inl (TweepyException TooManyRequests ''429 Too Many Requests''),
      [Block (Client ''token'') ''0'' False])"
  by (simp add: block_user_eq sample_vendor_simp sample_vendor_def sample_token)

lemma sample_listing_no_users:
  "get_blocked_users sample_platform sample_credentials (Some 10) (Some ''end'') () () () [] =
     (Inl (TweepyException TweepyBase ''No blocked users found''),
      [Get_blocked (Client ''token'') (request_params (Some 10) (Some ''end''))])"
  by (simp add: get_blocked_users_eq_body get_blocked_users_body_def client_call_def
        sample_platform_def sample_vendor_def sample_credentials_def request_params_def)

text \<open>
  Claim C3. In each of the three blocks, whenever the underlying operation raises an
  exception \<open>e\<close>, whatever its class, the run yields exactly one output: the pair of the
  name \<open>error\<close> and the string \<open>handle_tweepy_exception e\<close>. The outcome has the same
  form for every exception, so exceptions that could be retried and fatal ones are not
  told apart.
\<close>

theorem run_exception_yields_single_error:
  "(fst (unblock_user P creds (unblock_input.target_user_id ui) la) = Inl ea \<longrightarrow>
      fst (TwitterUnblockUserBlock_run P ui creds la) =
        [(''error'', VStr (handle_tweepy_exception P ea))]) \<and>
   (fst (block_user P creds (block_input.target_user_id bi) lb) = Inl eb \<longrightarrow>
      fst (TwitterBlockUserBlock_run P bi creds lb) =
        [(''error'', VStr (handle_tweepy_exception P eb))]) \<and>
   (fst (get_blocked_users P creds (max_results gi) (pagination_token gi) (expansions gi)
           (tweet_fields gi) (user_fields gi) lc) = Inl ec \<longrightarrow>
      fst (TwitterGetBlockedUsersBlock_run P gi creds lc) =
        [(''error'', VStr (handle_tweepy_exception P ec))])"
proof (intro conjI impI)
  assume "fst (unblock_user P creds (unblock_input.target_user_id ui) la) = Inl ea"
  then show "fst (TwitterUnblockUserBlock_run P ui creds la) =
               [(''error'', VStr (handle_tweepy_exception P ea))]"
    by (rule unblock_run_cases(1))
next
  assume "fst (block_user P creds (block_input.target_user_id bi) lb) = Inl eb"
  then show "fst (TwitterBlockUserBlock_run P bi creds lb) =
               [(''error'', VStr (handle_tweepy_exception P eb))]"
    by (rule block_run_cases(1))
next
  assume "fst (get_blocked_users P creds (max_results gi) (pagination_token gi)
                 (expansions gi) (tweet_fields gi) (user_fields gi) lc) = Inl ec"
  then show "fst (TwitterGetBlockedUsersBlock_run P gi creds lc) =
               [(''error'', VStr (handle_tweepy_exception P ec))]"
    by (rule get_blocked_run_error)
qed

text \<open>
  On the sample platform: unblocking user \<^verbatim>\<open>0\<close> raises \<^verbatim>\<open>NotFound\<close> (HTTP 404, fatal),
  blocking user \<^verbatim>\<open>0\<close> raises \<^verbatim>\<open>TooManyRequests\<close> (HTTP 429, which a caller could
  retry), and the empty page raises the block's own exception; each run yields the single
  error output.
\<close>

theorem run_exception_yields_single_error_witness:
  "fst (TwitterUnblockUserBlock_run sample_platform
          \<lparr>unblock_input.target_user_id = ''0''\<rparr> sample_credentials []) =
     [(''error'', VStr ''Twitter API error: 404 Not Found'')] \<and>
   fst (TwitterBlockUserBlock_run sample_platform
          \<lparr>block_input.target_user_id = ''0''\<rparr> sample_credentials []) =
     [(''error'', VStr ''Twitter API error: 429 Too Many Requests'')] \<and>
   fst (TwitterGetBlockedUsersBlock_run sample_platform
          (sample_listing\<lparr>pagination_token := Some ''end''\<rparr>) sample_credentials []) =
     [(''error'', VStr ''Twitter API error: No blocked users found'')]"
proof -
  let ?ui = "\<lparr>unblock_input.target_user_id = ''0''\<rparr>"
  let ?bi = "\<lparr>block_input.target_user_id = ''0''\<rparr>"
  let ?gi = "sample_listing\<lparr>pagination_token := Some ''end''\<rparr>"
  have u: "fst (unblock_user sample_platform sample_credentials
                  (unblock_input.target_user_id ?ui) []) =
             Inl (TweepyException NotFound ''404 Not Found'')"
    by (simp add: sample_unblock_raises)
  have b: "fst (block_user sample_platform sample_credentials
                  (block_input.target_user_id ?bi) []) =
             Inl (TweepyException TooManyRequests ''429 Too Many Requests'')"
    by (simp add: sample_block_raises)
  have g: "fst (get_blocked_users sample_platform sample_credentials (max_results ?gi)
                  (pagination_token ?gi) (expansions ?gi) (tweet_fields ?gi)
                  (user_fields ?gi) []) =
             Inl (TweepyException TweepyBase ''No blocked users found'')"
    by (simp add: sample_listing_def sample_listing_no_users)
  note t = run_exception_yields_single_error
    [where P = sample_platform and creds = sample_credentials
       and ui = ?ui and la = "[]" and ea = "TweepyException NotFound ''404 Not Found''"
       and bi = ?bi and lb = "[]"
       and eb = "TweepyException TooManyRequests ''429 Too Many Requests''"
       and gi = ?gi and lc = "[]"
       and ec = "TweepyException TweepyBase ''No blocked users found''"]
  from t u have "fst (TwitterUnblockUserBlock_run sample_platform ?ui sample_credentials []) =
      [(''error'', VStr (handle_tweepy_exception sample_platform
                           (TweepyException NotFound ''404 Not Found'')))]"
    by blast
  moreover from t b
  have "fst (TwitterBlockUserBlock_run sample_platform ?bi sample_credentials []) =
      [(''error'', VStr (handle_tweepy_exception sample_platform
                           (TweepyException TooManyRequests ''429 Too Many Requests'')))]"
    by blast
  moreover from t g
  have "fst (TwitterGetBlockedUsersBlock_run sample_platform ?gi sample_credentials []) =
      [(''error'', VStr (handle_tweepy_exception sample_platform
                           (TweepyException TweepyBase ''No blocked users found'')))]"
    by blast
  ultimately show ?thesis
    by (simp add: sample_handler)
qed

subsection \<open>Blocking and unblocking succeed with True\<close>

text \<open>
  Claim C4. For every target user id on which the vendor's \<^verbatim>\<open>block\<close> (respectively
  \<^verbatim>\<open>unblock\<close>) call returns without raising, \<open>block_user\<close> (respectively
  \<open>unblock_user\<close>) returns \<^verbatim>\<open>True\<close> after that one call, and the run of the block yields
  exactly the output \<^verbatim>\<open>("success", True)\<close>.
\<close>

theorem block_unblock_success:
  "(vendor P la (Block (Client (access_token creds)) (block_input.target_user_id bi) False)
      = Inr ra \<longrightarrow>
      block_user P creds (block_input.target_user_id bi) la =
        (Inr True,
         la @ [Block (Client (access_token creds)) (block_input.target_user_id bi) False]) \<and>
      fst (TwitterBlockUserBlock_run P bi creds la) = [(''success'', VBool True)]) \<and>
   (vendor P lb (Unblock (Client (access_token creds)) (unblock_input.target_user_id ui) False)
      = Inr rb \<longrightarrow>
      unblock_user P creds (unblock_input.target_user_id ui) lb =
        (Inr True,
         lb @ [Unblock (Client (access_token creds)) (unblock_input.target_user_id ui) False]) \<and>
      fst (TwitterUnblockUserBlock_run P ui creds lb) = [(''success'', VBool True)])"
  by (simp add: block_user_eq unblock_user_eq TwitterBlockUserBlock_run_def
        TwitterUnblockUserBlock_run_def)

text \<open>On the sample platform user \<^verbatim>\<open>12345\<close> is blocked and unblocked successfully.\<close>

theorem block_unblock_success_witness:
  "block_user sample_platform sample_credentials ''12345'' [] =
     (Inr True, [Block (Client ''token'') ''12345'' False]) \<and>
   fst (TwitterBlockUserBlock_run sample_platform
          \<lparr>block_input.target_user_id = ''12345''\<rparr> sample_credentials []) =
     [(''success'', VBool True)] \<and>
   unblock_user sample_platform sample_credentials ''12345'' [] =
     (Inr True, [Unblock (Client ''token'') ''12345'' False]) \<and>
   fst (TwitterUnblockUserBlock_run sample_platform
          \<lparr>unblock_input.target_user_id = ''12345''\<rparr> sample_credentials []) =
     [(''success'', VBool True)]"
proof -
  let ?bi = "\<lparr>block_input.target_user_id = ''12345''\<rparr>"
  let ?ui = "\<lparr>unblock_input.target_user_id = ''12345''\<rparr>"
  let ?r = "\<lparr>data = None, includes' = [], meta = []\<rparr>"
  have b: "vendor sample_platform []
             (Block (Client (access_token sample_credentials))
                (block_input.target_user_id ?bi) False) = Inr ?r"
    by (simp add: sample_vendor_simp sample_vendor_def)
  have u: "vendor sample_platform []
             (Unblock (Client (access_token sample_credentials))
                (unblock_input.target_user_id ?ui) False) = Inr ?r"
    by (simp add: sample_vendor_simp sample_vendor_def)
  note t = block_unblock_success
    [where P = sample_platform and creds = sample_credentials
       and bi = ?bi and la = "[]" and ra = ?r and ui = ?ui and lb = "[]" and rb = ?r]
  from t b have
    "block_user sample_platform sample_credentials (block_input.target_user_id ?bi) [] =
       (Inr True,
        [] @ [Block (Client (access_token sample_credentials))
                (block_input.target_user_id ?bi) False]) \<and>
     fst (TwitterBlockUserBlock_run sample_platform ?bi sample_credentials []) =
       [(''success'', VBool True)]"
    by blast
  moreover from t u have
    "unblock_user sample_platform sample_credentials (unblock_input.target_user_id ?ui) [] =
       (Inr True,
        [] @ [Unblock (Client (access_token sample_credentials))
                (unblock_input.target_user_id ?ui) False]) \<and>
     fst (TwitterUnblockUserBlock_run sample_platform ?ui sample_credentials []) =
       [(''success'', VBool True)]"
    by blast
  ultimately show ?thesis
    by (simp add: sample_token)
qed

subsection \<open>The success output is always True\<close>

text \<open>
  Claim C7. Whenever the run of the unblock block or of the block block yields an output
  named \<open>success\<close>, its value is \<^verbatim>\<open>True\<close>; \<^verbatim>\<open>("success", False)\<close> is never yielded. A run
  yields either the single output \<^verbatim>\<open>("success", True)\<close> or a single \<open>error\<close> output, so
  a failure shows only as an error.
\<close>

theorem success_output_always_true:
  "((''success'', v) \<in> set (fst (TwitterUnblockUserBlock_run P ui creds la)) \<longrightarrow>
      v = VBool True) \<and>
   ((''success'', w) \<in> set (fst (TwitterBlockUserBlock_run P bi creds lb)) \<longrightarrow>
      w = VBool True) \<and>
   (''success'', VBool False) \<notin> set (fst (TwitterUnblockUserBlock_run P ui creds la)) \<and>
   (''success'', VBool False) \<notin> set (fst (TwitterBlockUserBlock_run P bi creds lb)) \<and>
   (fst (TwitterUnblockUserBlock_run P ui creds la) = [(''success'', VBool True)] \<or>
    (\<exists>e. fst (TwitterUnblockUserBlock_run P ui creds la) =
            [(''error'', VStr (handle_tweepy_exception P e))])) \<and>
   (fst (TwitterBlockUserBlock_run P bi creds lb) = [(''success'', VBool True)] \<or>
    (\<exists>e. fst (TwitterBlockUserBlock_run P bi creds lb) =
            [(''error'', VStr (handle_tweepy_exception P e))]))"
  by (auto simp: block_user_eq unblock_user_eq TwitterBlockUserBlock_run_def
        TwitterUnblockUserBlock_run_def split: sum.splits)

text \<open>
  On the sample platform the runs for user \<^verbatim>\<open>12345\<close> yield a \<open>success\<close> output, and its
  value is \<^verbatim>\<open>True\<close>.
\<close>

theorem success_output_always_true_witness:
  "(''success'', VBool True) \<in> set (fst (TwitterUnblockUserBlock_run sample_platform
       \<lparr>unblock_input.target_user_id = ''12345''\<rparr> sample_credentials [])) \<and>
   (''success'', VBool True) \<in> set (fst (TwitterBlockUserBlock_run sample_platform
       \<lparr>block_input.target_user_id = ''12345''\<rparr> sample_credentials [])) \<and>
   (''success'', VBool False) \<notin> set (fst (TwitterUnblockUserBlock_run sample_platform
       \<lparr>unblock_input.target_user_id = ''12345''\<rparr> sample_credentials [])) \<and>
   (''success'', VBool False) \<notin> set (fst (TwitterBlockUserBlock_run sample_platform
       \<lparr>block_input.target_user_id = ''12345''\<rparr> sample_credentials []))"
proof -
  let ?bi = "\<lparr>block_input.target_user_id = ''12345''\<rparr>"
  let ?ui = "\<lparr>unblock_input.target_user_id = ''12345''\<rparr>"
  have u: "(''success'', VBool True) \<in>
             set (fst (TwitterUnblockUserBlock_run sample_platform ?ui sample_credentials []))"
    by (simp add: TwitterUnblockUserBlock_run_def unblock_user_eq sample_vendor_simp
          sample_vendor_def)
  have b: "(''success'', VBool True) \<in>
             set (fst (TwitterBlockUserBlock_run sample_platform ?bi sample_credentials []))"
    by (simp add: TwitterBlockUserBlock_run_def block_user_eq sample_vendor_simp
          sample_vendor_def)
  note t = success_output_always_true
    [where P = sample_platform and creds = sample_credentials
       and ui = ?ui and la = "[]" and v = "VBool True"
       and bi = ?bi and lb = "[]" and w = "VBool True"]
  from t u b show ?thesis
    by blast
qed

subsection \<open>A run yields a payload or an error, never both\<close>

lemma error_not_payload: "''error'' \<notin> payload_names"
  by (simp add: payload_names_def)

lemma single_success_names:
  "output_names [(''success'', v)] = {''success''}"
  "output_names [(''error'', v)] = {''error''}"
  by (simp_all add: output_names_def)

lemma unblock_run_exclusive:
  "\<not> (''error'' \<in> output_names (fst (TwitterUnblockUserBlock_run P ui creds la)) \<and>
      output_names (fst (TwitterUnblockUserBlock_run P ui creds la)) \<inter> payload_names \<noteq> {})"
proof (cases "fst (unblock_user P creds (unblock_input.target_user_id ui) la)")
  case (Inl e)
  then show ?thesis
    by (simp add: unblock_run_cases(1) single_success_names error_not_payload)
next
  case (Inr b)
  then show ?thesis
    by (simp add: unblock_run_cases(2) single_success_names)
qed

lemma block_run_exclusive:
  "\<not> (''error'' \<in> output_names (fst (TwitterBlockUserBlock_run P bi creds lb)) \<and>
      output_names (fst (TwitterBlockUserBlock_run P bi creds lb)) \<inter> payload_names \<noteq> {})"
proof (cases "fst (block_user P creds (block_input.target_user_id bi) lb)")
  case (Inl e)
  then show ?thesis
    by (simp add: block_run_cases(1) single_success_names error_not_payload)
next
  case (Inr b)
  then show ?thesis
    by (simp add: block_run_cases(2) single_success_names)
qed

lemma get_blocked_run_exclusive:
  "\<not> (''error'' \<in> output_names (fst (TwitterGetBlockedUsersBlock_run P gi creds lc)) \<and>
      output_names (fst (TwitterGetBlockedUsersBlock_run P gi creds lc)) \<inter> payload_names
        \<noteq> {})"
proof (cases "fst (get_blocked_users P creds (max_results gi) (pagination_token gi)
                     (expansions gi) (tweet_fields gi) (user_fields gi) lc)")
  case (Inl e)
  then show ?thesis
    by (simp add: get_blocked_run_error single_success_names error_not_payload)
next
  case (Inr res)
  obtain included m user_ids usernames nt
    where res: "res = (included, m, user_ids, usernames, nt)"
    by (cases res) auto
  have "''error'' \<notin> output_names (fst (TwitterGetBlockedUsersBlock_run P gi creds lc))"
    using Inr unfolding res
    by (auto simp: get_blocked_run_success output_names_def)
  then show ?thesis by simp
qed

text \<open>
  Claim C5. In every invocation of any of the three blocks, the run does not yield both an
  output named \<open>error\<close> and an output of the success payload (\<open>success\<close>, \<open>user_ids\<close>,
  \<open>usernames_\<close>, \<open>included\<close>, \<open>meta\<close> or \<open>next_token\<close>).
\<close>

theorem run_outputs_exclusive:
  "\<not> (''error'' \<in> output_names (fst (TwitterUnblockUserBlock_run P ui creds la)) \<and>
      output_names (fst (TwitterUnblockUserBlock_run P ui creds la)) \<inter> payload_names \<noteq> {}) \<and>
   \<not> (''error'' \<in> output_names (fst (TwitterBlockUserBlock_run P bi creds lb)) \<and>
      output_names (fst (TwitterBlockUserBlock_run P bi creds lb)) \<inter> payload_names \<noteq> {}) \<and>
   \<not> (''error'' \<in> output_names (fst (TwitterGetBlockedUsersBlock_run P gi creds lc)) \<and>
      output_names (fst (TwitterGetBlockedUsersBlock_run P gi creds lc)) \<inter> payload_names
        \<noteq> {})"
  using unblock_run_exclusive block_run_exclusive get_blocked_run_exclusive
  by blast

lemma sample_listing_run:
  "fst (TwitterGetBlockedUsersBlock_run sample_platform sample_listing sample_credentials []) =
     [(''user_ids'', VStrList [''12345'', ''67890'']),
      (''usernames_'', VStrList [''testuser1'', ''testuser2'']),
      (''meta'', VDict [(''result_count'', PInt 2), (''next_token'', PStr ''abc'')]),
      (''next_token'', VPy (PStr ''abc''))]"
  by (simp add: TwitterGetBlockedUsersBlock_run_def sample_listing_def sample_listing_result)

text \<open>
  On the sample platform: unblocking user \<^verbatim>\<open>0\<close> yields an error and no payload, blocking
  user \<^verbatim>\<open>12345\<close> yields a payload and no error, and so does the listing.
\<close>

theorem run_outputs_exclusive_witness:
  "output_names (fst (TwitterUnblockUserBlock_run sample_platform
       \<lparr>unblock_input.target_user_id = ''0''\<rparr> sample_credentials [])) = {''error''} \<and>
   output_names (fst (TwitterUnblockUserBlock_run sample_platform
       \<lparr>unblock_input.target_user_id = ''0''\<rparr> sample_credentials [])) \<inter> payload_names = {} \<and>
   output_names (fst (TwitterBlockUserBlock_run sample_platform
       \<lparr>block_input.target_user_id = ''12345''\<rparr> sample_credentials [])) = {''success''} \<and>
   ''error'' \<notin> output_names (fst (TwitterBlockUserBlock_run sample_platform
       \<lparr>block_input.target_user_id = ''12345''\<rparr> sample_credentials [])) \<and>
   output_names (fst (TwitterGetBlockedUsersBlock_run sample_platform sample_listing
       sample_credentials [])) = {''user_ids'', ''usernames_'', ''meta'', ''next_token''} \<and>
   ''error'' \<notin> output_names (fst (TwitterGetBlockedUsersBlock_run sample_platform
       sample_listing sample_credentials []))"
proof -
  let ?ui = "\<lparr>unblock_input.target_user_id = ''0''\<rparr>"
  let ?bi = "\<lparr>block_input.target_user_id = ''12345''\<rparr>"
  have u: "output_names (fst (TwitterUnblockUserBlock_run sample_platform ?ui
             sample_credentials [])) = {''error''}"
    by (simp add: TwitterUnblockUserBlock_run_def sample_unblock_raises output_names_def)
  have b: "output_names (fst (TwitterBlockUserBlock_run sample_platform ?bi
             sample_credentials [])) = {''success''}"
    by (simp add: TwitterBlockUserBlock_run_def block_user_eq sample_vendor_simp
          sample_vendor_def output_names_def)
  have g: "output_names (fst (TwitterGetBlockedUsersBlock_run sample_platform sample_listing
             sample_credentials [])) = {''user_ids'', ''usernames_'', ''meta'', ''next_token''}"
    by (simp add: sample_listing_run output_names_def)
  have pb: "''success'' \<in> payload_names" and pg: "''user_ids'' \<in> payload_names"
    by (simp_all add: payload_names_def)
  note t = run_outputs_exclusive
    [where P = sample_platform and creds = sample_credentials
       and ui = ?ui and la = "[]" and bi = ?bi and lb = "[]"
       and gi = sample_listing and lc = "[]"]
  have "output_names (fst (TwitterUnblockUserBlock_run sample_platform ?ui
          sample_credentials [])) \<inter> payload_names = {}"
    using t u by blast
  moreover have "''error'' \<notin> output_names (fst (TwitterBlockUserBlock_run sample_platform ?bi
          sample_credentials []))"
    using t b pb by blast
  moreover have "''error'' \<notin> output_names (fst (TwitterGetBlockedUsersBlock_run
          sample_platform sample_listing sample_credentials []))"
    using t g pg by blast
  ultimately show ?thesis
    using u b g by blast
qed

subsection \<open>The helpers call the vendor at most once and re-raise\<close>

text \<open>
  Claim C6. Each of the static helpers \<open>unblock_user\<close>, \<open>block_user\<close> and
  \<open>get_blocked_users\<close> adds at most one call to the vendor's call log, so none of them
  retries; and when the vendor call raises a \<^verbatim>\<open>TweepyException\<close>, the helper raises that
  same exception, after that single call.
\<close>

theorem helpers_call_once_and_reraise:
  "(\<exists>cs. snd (unblock_user P creds ta la) = la @ cs \<and> length cs \<le> 1) \<and>
   (vendor P la (Unblock (Client (access_token creds)) ta False) = Inl (TweepyException ka ma)
      \<longrightarrow> unblock_user P creds ta la =
           (Inl (TweepyException ka ma),
            la @ [Unblock (Client (access_token creds)) ta False])) \<and>
   (\<exists>cs. snd (block_user P creds tb lb) = lb @ cs \<and> length cs \<le> 1) \<and>
   (vendor P lb (Block (Client (access_token creds)) tb False) = Inl (TweepyException kb mb)
      \<longrightarrow> block_user P creds tb lb =
           (Inl (TweepyException kb mb),
            lb @ [Block (Client (access_token creds)) tb False])) \<and>
   (\<exists>cs. snd (get_blocked_users P creds mr tok x t u lc) = lc @ cs \<and> length cs \<le> 1) \<and>
   (UserExpansionsBuilder P (request_params mr tok) x t u = Inr params' \<and>
    vendor P lc (Get_blocked (Client (access_token creds)) params')
      = Inl (TweepyException kc mc)
      \<longrightarrow> get_blocked_users P creds mr tok x t u lc =
           (Inl (TweepyException kc mc),
            lc @ [Get_blocked (Client (access_token creds)) params']))"
proof (intro conjI impI)
  show "\<exists>cs. snd (unblock_user P creds ta la) = la @ cs \<and> length cs \<le> 1"
    by (simp add: unblock_user_eq)
  show "\<exists>cs. snd (block_user P creds tb lb) = lb @ cs \<and> length cs \<le> 1"
    by (simp add: block_user_eq)
  show "\<exists>cs. snd (get_blocked_users P creds mr tok x t u lc) = lc @ cs \<and> length cs \<le> 1"
    by (rule get_blocked_users_log)
next
  assume "vendor P la (Unblock (Client (access_token creds)) ta False)
            = Inl (TweepyException ka ma)"
  then show "unblock_user P creds ta la =
               (Inl (TweepyException ka ma),
                la @ [Unblock (Client (access_token creds)) ta False])"
    by (simp add: unblock_user_eq)
next
  assume "vendor P lb (Block (Client (access_token creds)) tb False)
            = Inl (TweepyException kb mb)"
  then show "block_user P creds tb lb =
               (Inl (TweepyException kb mb),
                lb @ [Block (Client (access_token creds)) tb False])"
    by (simp add: block_user_eq)
next
  assume "UserExpansionsBuilder P (request_params mr tok) x t u = Inr params' \<and>
          vendor P lc (Get_blocked (Client (access_token creds)) params')
            = Inl (TweepyException kc mc)"
  then show "get_blocked_users P creds mr tok x t u lc =
               (Inl (TweepyException kc mc),
                lc @ [Get_blocked (Client (access_token creds)) params'])"
    by (simp add: get_blocked_users_vendor_raises)
qed

text \<open>
  On the sample platform the vendor raises on unblocking or blocking user \<^verbatim>\<open>0\<close> and on
  listing with token \<^verbatim>\<open>bad\<close>: each helper raises the vendor's exception and the log
  holds the one call.
\<close>

theorem helpers_call_once_and_reraise_witness:
  "unblock_user sample_platform sample_credentials ''0'' [] =
     (Inl (TweepyException NotFound ''404 Not Found''),
      [Unblock (Client ''token'') ''0'' False]) \<and>
   block_user sample_platform sample_credentials ''0'' [] =
     (Inl (TweepyException TooManyRequests ''429 Too Many Requests''),
      [Block (Client ''token'') ''0'' False]) \<and>
   get_blocked_users sample_platform sample_credentials (Some 10) (Some ''bad'') () () () [] =
     (Inl (TweepyException BadRequest ''400 Bad Request''),
      [Get_blocked (Client ''token'') (request_params (Some 10) (Some ''bad''))])"
proof -
  let ?p = "request_params (Some 10) (Some ''bad'')"
  have u: "vendor sample_platform [] (Unblock (Client (access_token sample_credentials)) ''0''
             False) = Inl (TweepyException NotFound ''404 Not Found'')"
    by (simp add: sample_vendor_simp sample_vendor_def)
  have b: "vendor sample_platform [] (Block (Client (access_token sample_credentials)) ''0''
             False) = Inl (TweepyException TooManyRequests ''429 Too Many Requests'')"
    by (simp add: sample_vendor_simp sample_vendor_def)
  have g: "UserExpansionsBuilder sample_platform (request_params (Some 10) (Some ''bad''))
             () () () = Inr ?p \<and>
           vendor sample_platform [] (Get_blocked (Client (access_token sample_credentials)) ?p)
             = Inl (TweepyException BadRequest ''400 Bad Request'')"
    by (simp add: sample_builder sample_vendor_simp sample_vendor_def request_params_def)
  note t = helpers_call_once_and_reraise
    [where P = sample_platform and creds = sample_credentials
       and ta = "''0''" and la = "[]" and ka = NotFound and ma = "''404 Not Found''"
       and tb = "''0''" and lb = "[]" and kb = TooManyRequests
       and mb = "''429 Too Many Requests''"
       and mr = "Some 10" and tok = "Some ''bad''" and x = "()" and t = "()" and u = "()"
       and lc = "[]" and params' = ?p and kc = BadRequest and mc = "''400 Bad Request''"]
  from t u have "unblock_user sample_platform sample_credentials ''0'' [] =
      (Inl (TweepyException NotFound ''404 Not Found''),
       [] @ [Unblock (Client (access_token sample_credentials)) ''0'' False])"
    by blast
  moreover from t b have "block_user sample_platform sample_credentials ''0'' [] =
      (Inl (TweepyException TooManyRequests ''429 Too Many Requests''),
       [] @ [Block (Client (access_token sample_credentials)) ''0'' False])"
    by blast
  moreover from t g
  have "get_blocked_users sample_platform sample_credentials (Some 10) (Some ''bad'')
          () () () [] =
      (Inl (TweepyException BadRequest ''400 Bad Request''),
       [] @ [Get_blocked (Client (access_token sample_credentials)) ?p])"
    by blast
  ultimately show ?thesis
    by (simp add: sample_token)
qed

subsection \<open>Outputs of a successful listing\<close>

text \<open>
  Claim C8. When \<open>get_blocked_users\<close> returns a result, the run yields \<open>user_ids\<close> and
  \<open>usernames_\<close>, both with non-empty lists, followed by \<open>included\<close> exactly when the
  serialized includes are a non-empty dictionary, \<open>meta\<close> exactly when the meta
  dictionary is non-empty, and \<open>next_token\<close> exactly when the token is truthy (neither
  \<^verbatim>\<open>None\<close> nor empty); a meta dictionary without the key \<open>next_token\<close> gives no
  \<open>next_token\<close> output.
\<close>

theorem get_blocked_success_outputs:
  assumes "fst (get_blocked_users P creds (max_results gi) (pagination_token gi)
                  (expansions gi) (tweet_fields gi) (user_fields gi) lc) =
             Inr (included, m, user_ids, usernames, nt)"
  shows "user_ids \<noteq> [] \<and> usernames \<noteq> [] \<and>
         fst (TwitterGetBlockedUsersBlock_run P gi creds lc) =
           [(''user_ids'', VStrList user_ids), (''usernames_'', VStrList usernames)] @
           (if included \<noteq> [] then [(''included'', VDict included)] else []) @
           (if m \<noteq> [] then [(''meta'', VDict m)] else []) @
           (if truthy nt then [(''next_token'', VPy nt)] else []) \<and>
         (''included'' \<in> output_names (fst (TwitterGetBlockedUsersBlock_run P gi creds lc))
            \<longleftrightarrow> included \<noteq> []) \<and>
         (''meta'' \<in> output_names (fst (TwitterGetBlockedUsersBlock_run P gi creds lc))
            \<longleftrightarrow> m \<noteq> []) \<and>
         (''next_token'' \<in> output_names (fst (TwitterGetBlockedUsersBlock_run P gi creds lc))
            \<longleftrightarrow> truthy nt) \<and>
         (map_of m ''next_token'' = None \<longrightarrow>
            ''next_token'' \<notin> output_names (fst (TwitterGetBlockedUsersBlock_run P gi creds lc)))"
proof -
  from get_blocked_users_success_shape [OF assms]
  obtain params' resp us where shape:
    "UserExpansionsBuilder P (request_params (max_results gi) (pagination_token gi))
       (expansions gi) (tweet_fields gi) (user_fields gi) = Inr params' \<and>
     vendor P lc (Get_blocked (Client (access_token creds)) params') = Inr resp \<and>
     IncludesSerializer_serialize P (includes' resp) = Inr included \<and>
     data resp = Some us \<and> us \<noteq> [] \<and>
     user_ids = map (\<lambda>u. str (id' u)) us \<and> usernames = map username us \<and>
     m = meta resp \<and>
     nt = (case map_of (meta resp) ''next_token'' of Some v \<Rightarrow> v | None \<Rightarrow> PNone)"
    by (elim exE) (rule that)
  from shape have us: "us \<noteq> []"
    and ids: "user_ids = map (\<lambda>u. str (id' u)) us"
    and names: "usernames = map username us"
    and m: "m = meta resp"
    and nt: "nt = (case map_of (meta resp) ''next_token'' of Some v \<Rightarrow> v | None \<Rightarrow> PNone)"
    by simp_all
  have ne: "user_ids \<noteq> []" "usernames \<noteq> []"
    using us by (simp_all add: ids names)
  have run: "fst (TwitterGetBlockedUsersBlock_run P gi creds lc) =
           [(''user_ids'', VStrList user_ids), (''usernames_'', VStrList usernames)] @
           (if included \<noteq> [] then [(''included'', VDict included)] else []) @
           (if m \<noteq> [] then [(''meta'', VDict m)] else []) @
           (if truthy nt then [(''next_token'', VPy nt)] else [])"
    using ne by (simp add: get_blocked_run_success [OF assms])
  have absent: "map_of m ''next_token'' = None \<longrightarrow> \<not> truthy nt"
    by (simp add: m nt)
  have inc: "''included'' \<in> output_names (fst (TwitterGetBlockedUsersBlock_run P gi creds lc))
               \<longleftrightarrow> included \<noteq> []"
    by (auto simp: run output_names_def)
  have met: "''meta'' \<in> output_names (fst (TwitterGetBlockedUsersBlock_run P gi creds lc))
               \<longleftrightarrow> m \<noteq> []"
    by (auto simp: run output_names_def)
  have tok: "''next_token'' \<in> output_names (fst (TwitterGetBlockedUsersBlock_run P gi creds lc))
               \<longleftrightarrow> truthy nt"
    by (auto simp: run output_names_def)
  from absent tok have
    "map_of m ''next_token'' = None \<longrightarrow>
       ''next_token'' \<notin> output_names (fst (TwitterGetBlockedUsersBlock_run P gi creds lc))"
    by simp
  with ne run inc met tok show ?thesis
    by (intro conjI)
qed

text \<open>
  On the sample platform the listing has no includes, a non-empty meta dictionary and a
  next token: the run yields the two lists, \<open>meta\<close> and \<open>next_token\<close>, and no
  \<open>included\<close>.
\<close>

theorem get_blocked_success_outputs_witness:
  "fst (TwitterGetBlockedUsersBlock_run sample_platform sample_listing sample_credentials []) =
     [(''user_ids'', VStrList [''12345'', ''67890'']),
      (''usernames_'', VStrList [''testuser1'', ''testuser2'']),
      (''meta'', VDict [(''result_count'', PInt 2), (''next_token'', PStr ''abc'')]),
      (''next_token'', VPy (PStr ''abc''))] \<and>
   ''included'' \<notin> output_names (fst (TwitterGetBlockedUsersBlock_run sample_platform
      sample_listing sample_credentials [])) \<and>
   ''meta'' \<in> output_names (fst (TwitterGetBlockedUsersBlock_run sample_platform
      sample_listing sample_credentials [])) \<and>
   ''next_token'' \<in> output_names (fst (TwitterGetBlockedUsersBlock_run sample_platform
      sample_listing sample_credentials []))"
proof -
  have h: "fst (get_blocked_users sample_platform sample_credentials
                  (max_results sample_listing) (pagination_token sample_listing)
                  (expansions sample_listing) (tweet_fields sample_listing)
                  (user_fields sample_listing) []) =
             Inr ([], [(''result_count'', PInt 2), (''next_token'', PStr ''abc'')],
                  [''12345'', ''67890''], [''testuser1'', ''testuser2''], PStr ''abc'')"
    by (simp add: sample_listing_def sample_listing_result)
  from get_blocked_success_outputs [OF h] show ?thesis
    by (simp add: output_names_def)
qed

subsection \<open>An empty pagination token is no token\<close>

lemma request_params_empty_token:
  "request_params mr (Some []) = request_params mr None"
  by (simp add: request_params_def)

lemma get_blocked_users_empty_token:
  "get_blocked_users P creds mr (Some []) x t u lc =
     get_blocked_users P creds mr None x t u lc"
  unfolding get_blocked_users_def get_blocked_users_body_def request_params_empty_token ..

text \<open>
  Claim C9. For any fixed values of the other arguments, \<open>get_blocked_users\<close> called with
  the pagination token \<^verbatim>\<open>""\<close> and called with \<^verbatim>\<open>None\<close> build the same request
  parameters, make the same vendor call and give the same outcome; so do the runs of the
  block on inputs that differ only in that.
\<close>

theorem empty_pagination_token_as_none:
  "request_params mr (Some []) = request_params mr None \<and>
   get_blocked_users P creds mr (Some []) x t u lc =
     get_blocked_users P creds mr None x t u lc \<and>
   TwitterGetBlockedUsersBlock_run P (gi\<lparr>pagination_token := Some []\<rparr>) creds lc =
     TwitterGetBlockedUsersBlock_run P (gi\<lparr>pagination_token := None\<rparr>) creds lc"
proof (intro conjI)
  show "request_params mr (Some []) = request_params mr None"
    by (rule request_params_empty_token)
  show "get_blocked_users P creds mr (Some []) x t u lc =
          get_blocked_users P creds mr None x t u lc"
    by (rule get_blocked_users_empty_token)
  show "TwitterGetBlockedUsersBlock_run P (gi\<lparr>pagination_token := Some []\<rparr>) creds lc =
          TwitterGetBlockedUsersBlock_run P (gi\<lparr>pagination_token := None\<rparr>) creds lc"
    unfolding TwitterGetBlockedUsersBlock_run_def
    by (simp add: get_blocked_users_empty_token)
qed

text \<open>
  On the sample platform both calls send \<^verbatim>\<open>pagination_token = None\<close> to the vendor and
  return the first page.
\<close>

theorem empty_pagination_token_as_none_witness:
  "request_params (Some 10) (Some []) =
     [(''max_results'', PInt 10), (''pagination_token'', PNone), (''user_auth'', PBool False)] \<and>
   get_blocked_users sample_platform sample_credentials (Some 10) None () () () [] =
     (Inr ([], [(''result_count'', PInt 2), (''next_token'', PStr ''abc'')],
           [''12345'', ''67890''], [''testuser1'', ''testuser2''], PStr ''abc''),
      [Get_blocked (Client ''token'') (request_params (Some 10) None)])"
proof -
  note t = empty_pagination_token_as_none
    [where P = sample_platform and creds = sample_credentials and mr = "Some 10"
       and x = "()" and t = "()" and u = "()" and lc = "[]" and gi = sample_listing]
  from t have q: "request_params (Some 10) (Some []) = request_params (Some 10) None"
    by (rule conjunct1)
  from t have e: "get_blocked_users sample_platform sample_credentials (Some 10) (Some [])
                    () () () [] =
                  get_blocked_users sample_platform sample_credentials (Some 10) None
                    () () () []"
    by (rule conjunct1 [OF conjunct2])
  have a: "request_params (Some 10) (Some []) =
             [(''max_results'', PInt 10), (''pagination_token'', PNone),
              (''user_auth'', PBool False)]"
    unfolding q by (simp add: request_params_def)
  have b: "get_blocked_users sample_platform sample_credentials (Some 10) None () () () [] =
     (Inr ([], [(''result_count'', PInt 2), (''next_token'', PStr ''abc'')],
           [''12345'', ''67890''], [''testuser1'', ''testuser2''], PStr ''abc''),
      [Get_blocked (Client ''token'') (request_params (Some 10) None)])"
    unfolding e [symmetric] by (rule sample_listing_result)
  from a b show ?thesis
    by (rule conjI)
qed

end
